theory Spec2Isabelle
  imports Complex_Main "HOL-Library.Char_ord" "HOL-Library.List_Lexorder"
begin

section \<open>JavaScript numbers and their comparisons\<close>

text \<open>
  A TypeScript \<open>number\<close> is an IEEE double. The code under study only compares
  numbers and copies them, so a number is modelled by its place in the order:
  \<open>NaN\<close>, the two infinities, or a finite value (every finite double is a real;
  the model has more finite values than the doubles, which is harmless for
  statements about all values). \<open>NaN\<close> is kept because the detail view passes
  \<open>parseFloat(sensorData.flame)\<close> to the classification, and \<open>parseFloat\<close>
  yields \<open>NaN\<close> on a string that does not start with a number.
  Every comparison with \<open>NaN\<close> is false.
\<close>

datatype number = NaN | NegInf | Fin real | PosInf

text \<open>\<open>js_ge a b\<close> is the JavaScript expression \<open>a >= b\<close> on two numbers.\<close>

fun js_ge :: "number \<Rightarrow> number \<Rightarrow> bool" where
  "js_ge NaN b = False"
| "js_ge a NaN = False"
| "js_ge PosInf b = True"
| "js_ge a NegInf = True"
| "js_ge (Fin a) (Fin b) = (b \<le> a)"
| "js_ge (Fin a) PosInf = False"
| "js_ge NegInf b = False"

text \<open>\<open>js_lt a b\<close> is \<open>a < b\<close>, and \<open>js_le a b\<close> is \<open>a <= b\<close>.\<close>

fun js_lt :: "number \<Rightarrow> number \<Rightarrow> bool" where
  "js_lt NaN b = False"
| "js_lt a NaN = False"
| "js_lt PosInf b = False"
| "js_lt a NegInf = False"
| "js_lt (Fin a) (Fin b) = (a < b)"
| "js_lt (Fin a) PosInf = True"
| "js_lt NegInf b = True"

definition js_le :: "number \<Rightarrow> number \<Rightarrow> bool" where
  "js_le a b = js_ge b a"

section \<open>The location-detail view: status classification\<close>

text \<open>The parameter type \<open>{ warning: number; danger: number }\<close> of \<open>getSensorStatus\<close>.\<close>

record thresholds =
  warning :: number
  danger :: number

text \<open>
  \<^verbatim>\<open>
  const getSensorStatus = (value: number, thresholds: { warning: number; danger: number }) => {
    if (value >= thresholds.danger) return "danger";
    if (value >= thresholds.warning) return "warning";
    return "normal";
  };
  \<close>
\<close>

definition getSensorStatus :: "number \<Rightarrow> thresholds \<Rightarrow> string" where
  "getSensorStatus v ths =
     (if js_ge v (danger ths) then ''danger''
      else if js_ge v (warning ths) then ''warning''
      else ''normal'')"

text \<open>The threshold pairs of the four call sites in the sensor cards.\<close>

definition flame_thresholds :: thresholds where
  "flame_thresholds = \<lparr>warning = Fin 20, danger = Fin 50\<rparr>"

definition gas_thresholds :: thresholds where
  "gas_thresholds = \<lparr>warning = Fin 300, danger = Fin 500\<rparr>"

definition temperature_thresholds :: thresholds where
  "temperature_thresholds = \<lparr>warning = Fin 40, danger = Fin 60\<rparr>"

definition humidity_thresholds :: thresholds where
  "humidity_thresholds = \<lparr>warning = Fin 70, danger = Fin 85\<rparr>"

text \<open>
  The classification as the specification words it, by ranges: \<open>danger\<close> when
  \<open>v >= danger\<close>, \<open>warning\<close> when \<open>warning <= v < danger\<close>, \<open>normal\<close> otherwise.
  It is compared with \<open>getSensorStatus\<close> below.
\<close>

definition status_by_ranges :: "number \<Rightarrow> thresholds \<Rightarrow> string" where
  "status_by_ranges v ths =
     (if js_ge v (danger ths) then ''danger''
      else if js_le (warning ths) v \<and> js_lt v (danger ths) then ''warning''
      else ''normal'')"

section \<open>The pending-requests review view: data\<close>

text \<open>
  The interface \<open>LocationRequest\<close> of \<open>PendingLocationRequests.tsx\<close>. The fields
  \<open>id\<close>, \<open>region\<close>, \<open>latitude\<close>, \<open>longitude\<close>, \<open>thingspeak_channel_id\<close>,
  \<open>thingspeak_read_key\<close> and \<open>status\<close> carry the prefix \<open>req_\<close>, since the
  \<open>Location\<close> of the detail view has fields of the same names. \<open>string | null\<close>
  and the optional field are options.
\<close>

record LocationRequest =
  req_id :: string
  location_name :: string
  req_region :: string
  req_latitude :: number
  req_longitude :: number
  req_thingspeak_channel_id :: string
  req_thingspeak_read_key :: string
  reason :: "string option"
  req_status :: "string option"
  created_at :: string
  user_id :: string
  user_email :: "string option"

text \<open>
  A row of the remote table \<open>location_requests\<close>: the columns above and the two
  columns that the reviewer's update writes.
\<close>

record request_row = LocationRequest +
  reviewed_by :: "string option"
  reviewed_at :: "string option"

text \<open>
  The object that \<open>handleApprove\<close> passes to \<open>insert\<close> on the table \<open>locations\<close>
  (fields prefixed with \<open>ins_\<close>). A row of that table is modelled by the object
  inserted; the columns that the database fills in itself are left out.
\<close>

record location_insert =
  ins_name :: string
  ins_region :: string
  ins_latitude :: number
  ins_longitude :: number
  ins_thingspeak_channel_id :: string
  ins_thingspeak_read_key :: string
  ins_status :: string

text \<open>The object passed to \<open>update\<close> on \<open>location_requests\<close> by both handlers.\<close>

record request_patch =
  patch_status :: string
  patch_reviewed_by :: string
  patch_reviewed_at :: string

text \<open>The remote database, as far as this view reads and writes it.\<close>

record db =
  locations :: "location_insert list"
  location_requests :: "request_row list"

text \<open>
  The remote calls of the view, in the form in which the client issues them:
  \<open>supabase.auth.getUser()\<close>, \<open>from("locations").insert(row)\<close>,
  \<open>from("location_requests").update(patch).eq("id", k)\<close>, and the query
  \<open>from("location_requests").select("*").eq("status", "pending").order("created_at",
  {ascending: false})\<close>.
\<close>

datatype remote_call =
  AuthGetUser
  | InsertLocation location_insert
  | UpdateRequest string request_patch
  | SelectPending

text \<open>The argument of \<open>toast\<close>.\<close>

record toast =
  title :: string
  description :: string
  variant :: "string option"

text \<open>
  What the remote service answers during one run of a handler: the user of the
  session (\<open>None\<close> when \<open>getUser\<close> reports no user), the \<open>error\<close> field of the
  answer to the insert, to the update and to the query (\<open>None\<close> when the call
  succeeded), and the clock read by \<open>new Date().toISOString()\<close>.
\<close>

record env =
  auth_user :: "string option"
  insert_error :: "string option"
  update_error :: "string option"
  select_error :: "string option"
  now :: string

text \<open>
  The state that a handler runs in: the remote database, the log of the remote
  calls issued so far (oldest first), the component state (\<open>requests\<close>,
  \<open>isLoading\<close>, \<open>processingId\<close>), the toasts shown and the lines written by
  \<open>console.error\<close> (label and error).
\<close>

record world =
  store :: db
  calls :: "remote_call list"
  requests :: "LocationRequest list"
  isLoading :: bool
  processingId :: "string option"
  toasts :: "toast list"
  console :: "(string \<times> string) list"

section \<open>The pending-requests review view: the remote service\<close>

text \<open>
  The service is not code of the repository. Its model: a call that answers with an
  error has changed nothing; a successful insert appends the row; a successful
  update with the filter \<open>eq("id", k)\<close> rewrites the three columns of every row whose
  \<open>id\<close> is \<open>k\<close> and of no other row (it succeeds also when no row matches); the
  query answers with the rows whose status is \<open>pending\<close>, latest \<open>created_at\<close>
  first (the timestamps are compared as text).
\<close>

definition apply_patch :: "request_patch \<Rightarrow> request_row \<Rightarrow> request_row" where
  "apply_patch p r =
     r\<lparr>req_status := Some (patch_status p),
       reviewed_by := Some (patch_reviewed_by p),
       reviewed_at := Some (patch_reviewed_at p)\<rparr>"

definition log_call :: "remote_call \<Rightarrow> world \<Rightarrow> world" where
  "log_call c w = w\<lparr>calls := calls w @ [c]\<rparr>"

definition remote_getUser :: "env \<Rightarrow> world \<Rightarrow> string option \<times> world" where
  "remote_getUser e w = (auth_user e, log_call AuthGetUser w)"

definition remote_insert :: "env \<Rightarrow> location_insert \<Rightarrow> world \<Rightarrow> string option \<times> world" where
  "remote_insert e row w =
     (case insert_error e of
        Some err \<Rightarrow> (Some err, log_call (InsertLocation row) w)
      | None \<Rightarrow>
          (None, log_call (InsertLocation row)
                   (w\<lparr>store := (store w)\<lparr>locations := locations (store w) @ [row]\<rparr>\<rparr>)))"

definition remote_update ::
  "env \<Rightarrow> string \<Rightarrow> request_patch \<Rightarrow> world \<Rightarrow> string option \<times> world" where
  "remote_update e k p w =
     (case update_error e of
        Some err \<Rightarrow> (Some err, log_call (UpdateRequest k p) w)
      | None \<Rightarrow>
          (None, log_call (UpdateRequest k p)
                   (w\<lparr>store := (store w)\<lparr>location_requests :=
                        map (\<lambda>r. if req_id r = k then apply_patch p r else r)
                          (location_requests (store w))\<rparr>\<rparr>)))"

definition pending_rows :: "db \<Rightarrow> request_row list" where
  "pending_rows d =
     rev (sort_key created_at
            (filter (\<lambda>r. req_status r = Some ''pending'') (location_requests d)))"

definition remote_select_pending ::
  "env \<Rightarrow> world \<Rightarrow> (string + request_row list) \<times> world" where
  "remote_select_pending e w =
     (case select_error e of
        Some err \<Rightarrow> (Inl err, log_call SelectPending w)
      | None \<Rightarrow> (Inr (pending_rows (store w)), log_call SelectPending w))"

section \<open>The pending-requests review view: the handlers\<close>

definition show_toast :: "toast \<Rightarrow> world \<Rightarrow> world" where
  "show_toast t w = w\<lparr>toasts := toasts w @ [t]\<rparr>"

definition console_error :: "string \<Rightarrow> string \<Rightarrow> world \<Rightarrow> world" where
  "console_error label err w = w\<lparr>console := console w @ [(label, err)]\<rparr>"

definition error_toast :: "string \<Rightarrow> toast" where
  "error_toast d = \<lparr>title = ''Error'', description = d, variant = Some ''destructive''\<rparr>"

text \<open>
  \<^verbatim>\<open>
  const fetchPendingRequests = async () => {
    try {
      const { data, error } = await supabase.from("location_requests").select("*")
        .eq("status", "pending").order("created_at", { ascending: false });
      if (error) throw error;
      setRequests(data || []);
    } catch (error) {
      console.error("Error fetching requests:", error);
      toast({ title: "Error", description: "Failed to fetch pending requests",
              variant: "destructive" });
    } finally {
      setIsLoading(false);
    }
  };
  \<close>
  The rows answered are held in the state at the type \<open>LocationRequest\<close>.
\<close>

definition fetchPendingRequests :: "env \<Rightarrow> world \<Rightarrow> world" where
  "fetchPendingRequests e w =
     (case remote_select_pending e w of
        (Inl err, w1) \<Rightarrow>
          (show_toast (error_toast ''Failed to fetch pending requests'')
             (console_error ''Error fetching requests:'' err w1))\<lparr>isLoading := False\<rparr>
      | (Inr data, w1) \<Rightarrow>
          w1\<lparr>requests := map LocationRequest.truncate data, isLoading := False\<rparr>)"

text \<open>
  The \<open>try\<close> block of \<open>handleApprove\<close> (lines 59 to 94). The first component of the
  result is the value thrown (\<open>None\<close> when the block ran to its end); the second is
  the state at that point, which keeps whatever the block did before it threw.
  \<^verbatim>\<open>
      const { data: { user } } = await supabase.auth.getUser();
      if (!user) throw new Error("Not authenticated");
      const { error: locationError } = await supabase.from("locations").insert({
          name: request.location_name, region: request.region,
          latitude: request.latitude, longitude: request.longitude,
          thingspeak_channel_id: request.thingspeak_channel_id,
          thingspeak_read_key: request.thingspeak_read_key,
          status: "normal" });
      if (locationError) throw locationError;
      const { error: updateError } = await supabase.from("location_requests")
        .update({ status: "approved", reviewed_by: user.id,
                  reviewed_at: new Date().toISOString() })
        .eq("id", request.id);
      if (updateError) throw updateError;
      toast({ title: "Success",
              description: `Location "${request.location_name}" has been approved and added` });
      fetchPendingRequests();
  \<close>
  \<open>fetchPendingRequests()\<close> is not awaited and catches its own errors, so it cannot
  make the block throw; the model runs it to its end at the place of the call.
\<close>

definition approve_try :: "env \<Rightarrow> LocationRequest \<Rightarrow> world \<Rightarrow> string option \<times> world" where
  "approve_try e request w =
     (case remote_getUser e w of
        (None, w1) \<Rightarrow> (Some ''Not authenticated'', w1)
      | (Some user, w1) \<Rightarrow>
          (case remote_insert e
                  \<lparr>ins_name = location_name request,
                   ins_region = req_region request,
                   ins_latitude = req_latitude request,
                   ins_longitude = req_longitude request,
                   ins_thingspeak_channel_id = req_thingspeak_channel_id request,
                   ins_thingspeak_read_key = req_thingspeak_read_key request,
                   ins_status = ''normal''\<rparr> w1 of
             (Some locationError, w2) \<Rightarrow> (Some locationError, w2)
           | (None, w2) \<Rightarrow>
               (case remote_update e (req_id request)
                       \<lparr>patch_status = ''approved'',
                        patch_reviewed_by = user,
                        patch_reviewed_at = now e\<rparr> w2 of
                  (Some updateError, w3) \<Rightarrow> (Some updateError, w3)
                | (None, w3) \<Rightarrow>
                    (None,
                     fetchPendingRequests e
                       (show_toast
                          \<lparr>title = ''Success'',
                           description = ''Location '' @ [CHR 0x22] @ location_name request
                             @ [CHR 0x22] @ '' has been approved and added'',
                           variant = None\<rparr> w3)))))"

text \<open>
  \<open>handleApprove\<close> (lines 56 to 105): \<open>setProcessingId(request.id)\<close>, the \<open>try\<close>
  block, the \<open>catch\<close> block (\<open>console.error\<close> and the error toast) when the block
  threw, and \<open>setProcessingId(null)\<close> in \<open>finally\<close>. The result pairs the error that
  the \<open>catch\<close> block received (\<open>None\<close> when the action completed without error)
  with the final state.
\<close>

definition handleApprove :: "env \<Rightarrow> LocationRequest \<Rightarrow> world \<Rightarrow> string option \<times> world" where
  "handleApprove e request w =
     (case approve_try e request (w\<lparr>processingId := Some (req_id request)\<rparr>) of
        (None, w1) \<Rightarrow> (None, w1\<lparr>processingId := None\<rparr>)
      | (Some err, w1) \<Rightarrow>
          (Some err,
           (show_toast (error_toast ''Failed to approve request'')
              (console_error ''Error approving request:'' err w1))\<lparr>processingId := None\<rparr>))"

text \<open>
  The \<open>try\<close> block of \<open>handleReject\<close> (lines 110 to 129).
  \<^verbatim>\<open>
      const { data: { user } } = await supabase.auth.getUser();
      if (!user) throw new Error("Not authenticated");
      const { error } = await supabase.from("location_requests")
        .update({ status: "rejected", reviewed_by: user.id,
                  reviewed_at: new Date().toISOString() })
        .eq("id", request.id);
      if (error) throw error;
      toast({ title: "Request Rejected",
              description: `Location request for "${request.location_name}" has been rejected` });
      fetchPendingRequests();
  \<close>
\<close>

definition reject_try :: "env \<Rightarrow> LocationRequest \<Rightarrow> world \<Rightarrow> string option \<times> world" where
  "reject_try e request w =
     (case remote_getUser e w of
        (None, w1) \<Rightarrow> (Some ''Not authenticated'', w1)
      | (Some user, w1) \<Rightarrow>
          (case remote_update e (req_id request)
                  \<lparr>patch_status = ''rejected'',
                   patch_reviewed_by = user,
                   patch_reviewed_at = now e\<rparr> w1 of
             (Some err, w2) \<Rightarrow> (Some err, w2)
           | (None, w2) \<Rightarrow>
               (None,
                fetchPendingRequests e
                  (show_toast
                     \<lparr>title = ''Request Rejected'',
                      description = ''Location request for '' @ [CHR 0x22]
                        @ location_name request @ [CHR 0x22] @ '' has been rejected'',
                      variant = None\<rparr> w2))))"

text \<open>\<open>handleReject\<close> (lines 107 to 140), with the result as for \<open>handleApprove\<close>.\<close>

definition handleReject :: "env \<Rightarrow> LocationRequest \<Rightarrow> world \<Rightarrow> string option \<times> world" where
  "handleReject e request w =
     (case reject_try e request (w\<lparr>processingId := Some (req_id request)\<rparr>) of
        (None, w1) \<Rightarrow> (None, w1\<lparr>processingId := None\<rparr>)
      | (Some err, w1) \<Rightarrow>
          (Some err,
           (show_toast (error_toast ''Failed to reject request'')
              (console_error ''Error rejecting request:'' err w1))\<lparr>processingId := None\<rparr>))"

text \<open>The writes among the remote calls.\<close>

fun is_insert :: "remote_call \<Rightarrow> bool" where
  "is_insert (InsertLocation row) = True"
| "is_insert c = False"

fun is_update :: "remote_call \<Rightarrow> bool" where
  "is_update (UpdateRequest k p) = True"
| "is_update c = False"

definition is_write :: "remote_call \<Rightarrow> bool" where
  "is_write c = (is_insert c \<or> is_update c)"

text \<open>The calls issued between a state \<open>w\<close> and a later state \<open>w'\<close>.\<close>

definition new_calls :: "world \<Rightarrow> world \<Rightarrow> remote_call list" where
  "new_calls w w' = drop (length (calls w)) (calls w')"

section \<open>The location-detail view: requests\<close>

text \<open>
  The interface \<open>Location\<close> of the detail view (\<open>id\<close> is \<open>loc_id\<close> here); the two
  telemetry credentials are \<open>string | null\<close>.
\<close>

record Location =
  loc_id :: string
  name :: string
  region :: string
  status :: string
  latitude :: number
  longitude :: number
  thingspeak_channel_id :: "string option"
  thingspeak_read_key :: "string option"

text \<open>
  The value of an object literal sent as a request body: the fields in the order
  written, each with its name.
\<close>

datatype json = JNull | JString string | JNumber number | JObject "(string \<times> json) list"

definition json_of_nullable :: "string option \<Rightarrow> json" where
  "json_of_nullable s = (case s of None \<Rightarrow> JNull | Some t \<Rightarrow> JString t)"

text \<open>
  The remote calls of the detail view:
  \<open>from("locations").select("*").eq("id", id).single()\<close> and
  \<open>supabase.functions.invoke(name, { body })\<close>.
\<close>

datatype detail_call = SelectLocation string | InvokeFunction string json

text \<open>
  JavaScript truthiness of a \<open>string | null\<close> (or \<open>undefined\<close>, when \<open>location\<close>
  itself is \<open>null\<close> under \<open>?.\<close>): the empty string is falsy.
\<close>

definition truthy :: "string option \<Rightarrow> bool" where
  "truthy s = (case s of None \<Rightarrow> False | Some t \<Rightarrow> t \<noteq> [])"

text \<open>
  \<open>const [location, setLocation] = useState<Location | null>(null)\<close> binds
  \<open>location\<close> anew in every render of the component, and the functions declared in
  the component body are created anew with it: a function closes over the
  \<open>location\<close> of the render that created it, and \<open>setLocation\<close> changes what the
  next render binds, not what an existing function sees.
  \<open>fetchSensorData loc\<close> is the list of requests sent by a call of the
  \<open>fetchSensorData\<close> of a render whose \<open>location\<close> was \<open>loc\<close>:
  \<^verbatim>\<open>
  const fetchSensorData = async () => {
    if (!location?.thingspeak_channel_id || !location?.thingspeak_read_key) return;
    try {
      const { data, error } = await supabase.functions.invoke("thingspeak-service", {
        body: { action: "latest",
                location: { thingspeak_channel_id: location.thingspeak_channel_id,
                            thingspeak_read_key: location.thingspeak_read_key } } });
      ...
  \<close>
  What the function does with the answer (\<open>setSensorData\<close>, \<open>setRawData\<close>,
  \<open>console.error\<close>) sends nothing and decides no later request; it is not part of
  the model. The same holds for \<open>fetchHistoricalData\<close>.
\<close>

fun fetchSensorData :: "Location option \<Rightarrow> detail_call list" where
  "fetchSensorData None = []"
| "fetchSensorData (Some l) =
     (if \<not> truthy (thingspeak_channel_id l) \<or> \<not> truthy (thingspeak_read_key l) then []
      else [InvokeFunction ''thingspeak-service''
              (JObject
                 [(''action'', JString ''latest''),
                  (''location'',
                   JObject
                     [(''thingspeak_channel_id'', json_of_nullable (thingspeak_channel_id l)),
                      (''thingspeak_read_key'', json_of_nullable (thingspeak_read_key l))])])])"

text \<open>
  \<^verbatim>\<open>
  const fetchHistoricalData = async () => {
    if (!location?.thingspeak_channel_id || !location?.thingspeak_read_key) return;
    try {
      const { data, error } = await supabase.functions.invoke("thingspeak-service", {
        body: { action: "history",
                location: { thingspeak_channel_id: location.thingspeak_channel_id,
                            thingspeak_read_key: location.thingspeak_read_key },
                results: 50 } });
      ...
  \<close>
\<close>

fun fetchHistoricalData :: "Location option \<Rightarrow> detail_call list" where
  "fetchHistoricalData None = []"
| "fetchHistoricalData (Some l) =
     (if \<not> truthy (thingspeak_channel_id l) \<or> \<not> truthy (thingspeak_read_key l) then []
      else [InvokeFunction ''thingspeak-service''
              (JObject
                 [(''action'', JString ''history''),
                  (''location'',
                   JObject
                     [(''thingspeak_channel_id'', json_of_nullable (thingspeak_channel_id l)),
                      (''thingspeak_read_key'', json_of_nullable (thingspeak_read_key l))]),
                  (''results'', JNumber (Fin 50))])])"

section \<open>The location-detail view: the mounted component\<close>

text \<open>
  A callback handed to \<open>setInterval\<close>: the function \<open>fetchSensorData\<close> together
  with the \<open>location\<close> that it closed over.
\<close>

datatype closure = FetchSensorData "Location option"

fun call_closure :: "closure \<Rightarrow> detail_call list" where
  "call_closure (FetchSensorData loc) = fetchSensorData loc"

text \<open>A running interval timer: its handle, its period in ms, its callback, its start.\<close>

record interval =
  handle :: nat
  delay :: nat
  callback :: closure
  set_at :: nat

text \<open>
  The mounted view: the route parameter \<open>id\<close>, the state \<open>location\<close>, the running
  timers, the handle that the cleanup of the effect will clear, the time in ms, the
  requests sent so far (oldest first) and the next free timer handle. The rest of the
  component state (\<open>sensorData\<close>, \<open>historicalData\<close>, \<open>rawData\<close>, \<open>isLoading\<close>,
  \<open>isRefreshing\<close>) and the toasts decide no request and are left out.
\<close>

record page =
  route_id :: string
  location :: "Location option"
  intervals :: "interval list"
  effect_cleanup :: "nat option"
  clock :: nat
  sent :: "detail_call list"
  next_handle :: nat

definition send :: "detail_call list \<Rightarrow> page \<Rightarrow> page" where
  "send cs p = p\<lparr>sent := sent p @ cs\<rparr>"

text \<open>
  \<open>fetchLocationData i loc resp p\<close>: the \<open>fetchLocationData\<close> of a render whose
  route parameter was \<open>i\<close> and whose \<open>location\<close> was \<open>loc\<close>, when the row query is
  answered by \<open>resp\<close> (\<open>Inl\<close> an error, \<open>Inr\<close> the row).
  \<^verbatim>\<open>
      const { data, error } = await supabase.from("locations").select("*")
        .eq("id", id).single();
      if (error) throw error;
      setLocation(data as Location);
      if (data.thingspeak_channel_id && data.thingspeak_read_key) {
        await fetchSensorData();
        await fetchHistoricalData();
      }
  \<close>
  \<open>setLocation\<close> changes the state for later renders; the \<open>fetchSensorData\<close> and
  \<open>fetchHistoricalData\<close> called here are those of the same render as this
  \<open>fetchLocationData\<close>, so they still see \<open>loc\<close>. Answers are taken to arrive at
  once.
\<close>

definition fetchLocationData ::
  "string \<Rightarrow> Location option \<Rightarrow> string + Location \<Rightarrow> page \<Rightarrow> page" where
  "fetchLocationData i loc resp p =
     (case resp of
        Inl err \<Rightarrow> send [SelectLocation i] p
      | Inr data \<Rightarrow>
          (let p1 = (send [SelectLocation i] p)\<lparr>location := Some data\<rparr>
           in if truthy (thingspeak_channel_id data) \<and> truthy (thingspeak_read_key data)
              then send (fetchHistoricalData loc) (send (fetchSensorData loc) p1)
              else p1))"

text \<open>
  The effect, run after a render of the page \<open>p\<close> (its closures see \<open>route_id p\<close>
  and \<open>location p\<close>):
  \<^verbatim>\<open>
  useEffect(() => {
    fetchLocationData();
    const interval = setInterval(fetchSensorData, 10000);
    return () => clearInterval(interval);
  }, [id]);
  \<close>
  The dependency list is \<open>[id]\<close>: the effect runs after the first render and after
  a render in which \<open>id\<close> has changed, and not when \<open>setLocation\<close> causes a render.
  Both \<open>fetchLocationData\<close> and the \<open>fetchSensorData\<close> handed to \<open>setInterval\<close>
  are the functions of the render that the effect belongs to, so the callback of the
  interval keeps the \<open>location\<close> of that render, \<open>location p\<close>, whatever
  \<open>setLocation\<close> stores afterwards.
\<close>

definition run_effect :: "string + Location \<Rightarrow> page \<Rightarrow> page" where
  "run_effect resp p =
     (let p1 = fetchLocationData (route_id p) (location p) resp p;
          h = next_handle p1
      in p1\<lparr>intervals := intervals p1 @
                [\<lparr>handle = h, delay = 10000,
                  callback = FetchSensorData (location p), set_at = clock p1\<rparr>],
            effect_cleanup := Some h,
            next_handle := Suc h\<rparr>)"

text \<open>The cleanup returned by the effect: \<open>clearInterval(interval)\<close>.\<close>

definition run_cleanup :: "page \<Rightarrow> page" where
  "run_cleanup p =
     (case effect_cleanup p of
        None \<Rightarrow> p
      | Some h \<Rightarrow> p\<lparr>intervals := filter (\<lambda>t. handle t \<noteq> h) (intervals p),
                     effect_cleanup := None\<rparr>)"

text \<open>
  Mounting: the first render has \<open>location = null\<close> (\<open>useState<Location | null>(null)\<close>),
  and the effect runs with the closures of that render.
\<close>

definition mount :: "string \<Rightarrow> string + Location \<Rightarrow> page" where
  "mount i resp =
     run_effect resp
       \<lparr>route_id = i, location = None, intervals = [], effect_cleanup = None,
        clock = 0, sent = [], next_handle = 0\<rparr>"

definition unmount :: "page \<Rightarrow> page" where
  "unmount p = run_cleanup p"

text \<open>
  A change of the route parameter while the view stays mounted: the cleanup of the
  old effect, then the effect again, with the closures of the new render.
\<close>

definition change_id :: "string \<Rightarrow> string + Location \<Rightarrow> page \<Rightarrow> page" where
  "change_id i resp p = run_effect resp ((run_cleanup p)\<lparr>route_id := i\<rparr>)"

text \<open>
  \<^verbatim>\<open>
  const handleRefresh = async () => {
    setIsRefreshing(true);
    await fetchSensorData();
    await fetchHistoricalData();
    ...
  \<close>
  The button calls the \<open>handleRefresh\<close> of the latest render, which sees the current
  \<open>location\<close>.
\<close>

definition handleRefresh :: "page \<Rightarrow> page" where
  "handleRefresh p =
     send (fetchHistoricalData (location p)) (send (fetchSensorData (location p)) p)"

text \<open>
  The browser's timers: a running interval fires each time a whole number of
  periods has passed since it was set. \<open>step_ms\<close> lets one millisecond pass and
  runs the callbacks that are due; \<open>elapse n\<close> lets \<open>n\<close> milliseconds pass.
\<close>

definition due :: "nat \<Rightarrow> interval \<Rightarrow> bool" where
  "due t i = (set_at i < t \<and> 0 < delay i \<and> (t - set_at i) mod delay i = 0)"

definition step_ms :: "page \<Rightarrow> page" where
  "step_ms p =
     (let t = Suc (clock p)
      in p\<lparr>clock := t,
           sent := sent p @ concat (map (\<lambda>i. call_closure (callback i))
                                      (filter (due t) (intervals p)))\<rparr>)"

fun elapse :: "nat \<Rightarrow> page \<Rightarrow> page" where
  "elapse 0 p = p"
| "elapse (Suc n) p = step_ms (elapse n p)"

text \<open>What can happen to a mounted view, and a run of such events.\<close>

datatype event =
  Elapse nat
  | ClickRefresh
  | IdChanged string "string + Location"
  | Unmount

fun handle_event :: "event \<Rightarrow> page \<Rightarrow> page" where
  "handle_event (Elapse n) p = elapse n p"
| "handle_event ClickRefresh p = handleRefresh p"
| "handle_event (IdChanged i resp) p = change_id i resp p"
| "handle_event Unmount p = unmount p"

fun run :: "event list \<Rightarrow> page \<Rightarrow> page" where
  "run [] p = p"
| "run (ev # evs) p = run evs (handle_event ev p)"

text \<open>The requests to the telemetry function, and their kinds.\<close>

fun invoke_body :: "detail_call \<Rightarrow> json option" where
  "invoke_body (InvokeFunction f body) = Some body"
| "invoke_body (SelectLocation i) = None"

fun field :: "string \<Rightarrow> json \<Rightarrow> json option" where
  "field k (JObject kvs) = map_of kvs k"
| "field k j = None"

fun field_names :: "json \<Rightarrow> string list" where
  "field_names (JObject kvs) = map fst kvs"
| "field_names j = []"

definition is_history :: "detail_call \<Rightarrow> bool" where
  "is_history c =
     (case invoke_body c of
        None \<Rightarrow> False
      | Some body \<Rightarrow> field ''action'' body = Some (JString ''history''))"

text \<open>
  The shape of a request body as the specification gives it,
  \<open>{action: "latest"|"history", location: {c, k}, results?}\<close>, for two names \<open>c\<close> and
  \<open>k\<close> of the credential fields: an object with the fields \<open>action\<close> and \<open>location\<close>
  and at most the further field \<open>results\<close>, where \<open>action\<close> is one of the two
  strings, \<open>location\<close> is an object with the fields \<open>c\<close> and \<open>k\<close> and no other,
  and \<open>results\<close> is there only when the action is \<open>history\<close>.
\<close>

definition request_shape :: "string \<Rightarrow> string \<Rightarrow> json \<Rightarrow> bool" where
  "request_shape c k body =
     ((field ''action'' body = Some (JString ''latest'')
         \<or> field ''action'' body = Some (JString ''history''))
      \<and> distinct (field_names body)
      \<and> {''action'', ''location''} \<subseteq> set (field_names body)
      \<and> set (field_names body) \<subseteq> {''action'', ''location'', ''results''}
      \<and> (case field ''location'' body of
            None \<Rightarrow> False
          | Some l \<Rightarrow> distinct (field_names l) \<and> set (field_names l) = {c, k})
      \<and> (''results'' \<in> set (field_names body)
           \<longrightarrow> field ''action'' body = Some (JString ''history'')))"

text \<open>
  A call of the detail view is \<open>emitted\<close> when it is the row query or comes out of
  \<open>fetchSensorData\<close> or \<open>fetchHistoricalData\<close> for some \<open>location\<close>; a page is
  \<open>all_emitted\<close> when everything it has sent is.
\<close>

definition emitted :: "detail_call \<Rightarrow> bool" where
  "emitted c =
     ((\<exists>i. c = SelectLocation i)
      \<or> (\<exists>loc. c \<in> set (fetchSensorData loc))
      \<or> (\<exists>loc. c \<in> set (fetchHistoricalData loc)))"

definition all_emitted :: "page \<Rightarrow> bool" where
  "all_emitted p = (\<forall>c \<in> set (sent p). emitted c)"

section \<open>Concrete states for the examples\<close>

text \<open>
  One pending request and the database row it was read from, a view that lists it,
  and four answers of the remote service: all calls succeed; no user is signed in;
  the update fails; the query for the pending rows fails (so the list stays as it
  is). For the detail view, a location that has both credentials.
\<close>

definition example_request :: LocationRequest where
  "example_request =
     \<lparr>req_id = ''r1'', location_name = ''Depot'', req_region = ''North'',
      req_latitude = Fin 12, req_longitude = Fin 77,
      req_thingspeak_channel_id = ''1234'', req_thingspeak_read_key = ''KEY'',
      reason = None, req_status = Some ''pending'',
      created_at = ''2025-01-01T00:00:00Z'', user_id = ''u7'', user_email = None\<rparr>"

definition example_row :: request_row where
  "example_row = LocationRequest.extend example_request \<lparr>reviewed_by = None, reviewed_at = None\<rparr>"

definition example_world :: world where
  "example_world =
     \<lparr>store = \<lparr>locations = [], location_requests = [example_row]\<rparr>,
      calls = [], requests = [example_request], isLoading = False,
      processingId = None, toasts = [], console = []\<rparr>"

definition env_ok :: env where
  "env_ok = \<lparr>auth_user = Some ''admin'', insert_error = None, update_error = None,
     select_error = None, now = ''2025-01-02T00:00:00Z''\<rparr>"

definition env_no_user :: env where
  "env_no_user = env_ok\<lparr>auth_user := None\<rparr>"

definition env_update_fails :: env where
  "env_update_fails = env_ok\<lparr>update_error := Some ''timeout''\<rparr>"

definition env_stale :: env where
  "env_stale = env_ok\<lparr>select_error := Some ''offline''\<rparr>"

definition example_location :: Location where
  "example_location =
     \<lparr>loc_id = ''loc-1'', name = ''Depot'', region = ''North'', status = ''normal'',
      latitude = Fin 12, longitude = Fin 77,
      thingspeak_channel_id = Some ''1234'', thingspeak_read_key = Some ''KEY''\<rparr>"


section \<open>Status classification: results\<close>

lemma js_lt_iff_not_ge:
  "a \<noteq> NaN \<Longrightarrow> b \<noteq> NaN \<Longrightarrow> js_lt a b = (\<not> js_ge a b)"
  by (cases a; cases b) auto

lemma js_ge_not_NaN: "js_ge a b \<Longrightarrow> a \<noteq> NaN \<and> b \<noteq> NaN"
  by (cases a; cases b) auto

lemma getSensorStatus_sequential:
  "(getSensorStatus v ths = ''danger'') = js_ge v (danger ths)
   \<and> (getSensorStatus v ths = ''warning'')
       = (js_ge v (warning ths) \<and> \<not> js_ge v (danger ths))
   \<and> (getSensorStatus v ths = ''normal'')
       = (\<not> js_ge v (warning ths) \<and> \<not> js_ge v (danger ths))"
  by (simp add: getSensorStatus_def)

lemma getSensorStatus_ranges:
  assumes d: "danger ths \<noteq> NaN"
  shows "getSensorStatus v ths = status_by_ranges v ths"
proof (cases "js_ge v (warning ths)")
  case True
  then have "v \<noteq> NaN" using js_ge_not_NaN by blast
  then have "js_lt v (danger ths) = (\<not> js_ge v (danger ths))"
    using d by (simp add: js_lt_iff_not_ge)
  with True show ?thesis
    by (simp add: getSensorStatus_def status_by_ranges_def js_le_def)
next
  case False
  then show ?thesis
    by (simp add: getSensorStatus_def status_by_ranges_def js_le_def)
qed

text \<open>
  The function is local to the component and is called at four places, each with a
  literal threshold pair; none of them has \<open>NaN\<close> as its danger threshold. Only for
  such a pair, which no call passes, would the two sequential tests differ from the
  ranges: \<open>1 >= NaN\<close> and \<open>1 < NaN\<close> are both false.
\<close>

lemma getSensorStatus_NaN_danger:
  "getSensorStatus (Fin 1) \<lparr>warning = Fin 0, danger = NaN\<rparr> = ''warning''
   \<and> status_by_ranges (Fin 1) \<lparr>warning = Fin 0, danger = NaN\<rparr> = ''normal''"
  by (simp add: getSensorStatus_def status_by_ranges_def js_le_def)

text \<open>
  Claim C1. For every value \<open>v\<close> (\<open>NaN\<close>, as \<open>parseFloat\<close> may give it, and the
  infinities included) and every pair of thresholds whose danger threshold is a
  number, the function returns \<open>danger\<close> when \<open>v >= danger\<close>, \<open>warning\<close> when
  \<open>warning <= v < danger\<close>, and \<open>normal\<close> otherwise: it is the classification by
  ranges. This covers the threshold pairs of all four call sites, for every value.
  With the gas thresholds \<open>{warning: 300, danger: 500}\<close>, 300 gives \<open>warning\<close>, 500
  gives \<open>danger\<close> and 299 gives \<open>normal\<close>.
\<close>

theorem getSensorStatus_classifies:
  assumes "danger ths \<noteq> NaN"
  shows "(js_ge v (danger ths) \<longrightarrow> getSensorStatus v ths = ''danger'')
   \<and> (js_le (warning ths) v \<and> js_lt v (danger ths) \<longrightarrow> getSensorStatus v ths = ''warning'')
   \<and> (\<not> js_ge v (danger ths) \<and> \<not> (js_le (warning ths) v \<and> js_lt v (danger ths))
        \<longrightarrow> getSensorStatus v ths = ''normal'')
   \<and> getSensorStatus v ths = status_by_ranges v ths
   \<and> getSensorStatus v flame_thresholds = status_by_ranges v flame_thresholds
   \<and> getSensorStatus v gas_thresholds = status_by_ranges v gas_thresholds
   \<and> getSensorStatus v temperature_thresholds = status_by_ranges v temperature_thresholds
   \<and> getSensorStatus v humidity_thresholds = status_by_ranges v humidity_thresholds
   \<and> getSensorStatus (Fin 300) gas_thresholds = ''warning''
   \<and> getSensorStatus (Fin 500) gas_thresholds = ''danger''
   \<and> getSensorStatus (Fin 299) gas_thresholds = ''normal''"
proof -
  have r: "getSensorStatus v ths = status_by_ranges v ths"
    using assms by (rule getSensorStatus_ranges)
  have cases: "(js_ge v (danger ths) \<longrightarrow> status_by_ranges v ths = ''danger'')
     \<and> (js_le (warning ths) v \<and> js_lt v (danger ths) \<longrightarrow> status_by_ranges v ths = ''warning'')
     \<and> (\<not> js_ge v (danger ths) \<and> \<not> (js_le (warning ths) v \<and> js_lt v (danger ths))
          \<longrightarrow> status_by_ranges v ths = ''normal'')"
  proof (cases "js_ge v (danger ths)")
    case True
    then have "v \<noteq> NaN" using js_ge_not_NaN by blast
    with assms True have "\<not> js_lt v (danger ths)" by (simp add: js_lt_iff_not_ge)
    with True show ?thesis by (simp add: status_by_ranges_def)
  next
    case False
    then show ?thesis by (simp add: status_by_ranges_def)
  qed
  have sites: "getSensorStatus v flame_thresholds = status_by_ranges v flame_thresholds"
    "getSensorStatus v gas_thresholds = status_by_ranges v gas_thresholds"
    "getSensorStatus v temperature_thresholds = status_by_ranges v temperature_thresholds"
    "getSensorStatus v humidity_thresholds = status_by_ranges v humidity_thresholds"
    by (rule getSensorStatus_ranges,
        simp add: flame_thresholds_def gas_thresholds_def temperature_thresholds_def
          humidity_thresholds_def)+
  have gas: "getSensorStatus (Fin 300) gas_thresholds = ''warning''"
    "getSensorStatus (Fin 500) gas_thresholds = ''danger''"
    "getSensorStatus (Fin 299) gas_thresholds = ''normal''"
    by (simp_all add: getSensorStatus_def gas_thresholds_def)
  from r cases sites gas show ?thesis by simp
qed

text \<open>An instance of the statement: the gas thresholds and the value 350.\<close>

theorem getSensorStatus_classifies_witness:
  "danger gas_thresholds \<noteq> NaN
   \<and> js_le (warning gas_thresholds) (Fin 350)
   \<and> js_lt (Fin 350) (danger gas_thresholds)
   \<and> getSensorStatus (Fin 350) gas_thresholds = ''warning''
   \<and> getSensorStatus (Fin 350) gas_thresholds = status_by_ranges (Fin 350) gas_thresholds"
proof -
  have d: "danger gas_thresholds \<noteq> NaN"
    by (simp add: gas_thresholds_def)
  have range: "js_le (warning gas_thresholds) (Fin 350) \<and> js_lt (Fin 350) (danger gas_thresholds)"
    by (simp add: gas_thresholds_def js_le_def)
  from getSensorStatus_classifies [OF d, of "Fin 350"] d range show ?thesis by blast
qed

section \<open>The pending-requests review view: results\<close>

lemmas example_defs = example_request_def example_row_def example_world_def env_ok_def
  env_no_user_def env_update_fails_def env_stale_def LocationRequest.defs

lemma fetchPendingRequests_calls [simp]:
  "calls (fetchPendingRequests e w) = calls w @ [SelectPending]"
  by (simp add: fetchPendingRequests_def remote_select_pending_def log_call_def
      show_toast_def console_error_def split: option.splits)

lemma fetchPendingRequests_store [simp]:
  "store (fetchPendingRequests e w) = store w"
  by (simp add: fetchPendingRequests_def remote_select_pending_def log_call_def
      show_toast_def console_error_def split: option.splits)

lemmas review_defs = handleApprove_def approve_try_def handleReject_def reject_try_def
  remote_getUser_def remote_insert_def remote_update_def log_call_def show_toast_def
  console_error_def new_calls_def

lemma handleApprove_fst:
  "fst (handleApprove e request w) =
     (case auth_user e of None \<Rightarrow> Some ''Not authenticated''
      | Some user \<Rightarrow> (case insert_error e of Some err \<Rightarrow> Some err | None \<Rightarrow> update_error e))"
  by (simp add: review_defs split: option.splits)

lemma handleReject_fst:
  "fst (handleReject e request w) =
     (case auth_user e of None \<Rightarrow> Some ''Not authenticated''
      | Some user \<Rightarrow> update_error e)"
  by (simp add: review_defs split: option.splits)

text \<open>
  Claim C2. When the approve action completes without error, the writes among the
  calls it issued are one insert into \<open>locations\<close> followed by one update of
  \<open>location_requests\<close>, and no other: exactly one insert and exactly one update.
  The update is filtered by the id of the request and carries the status
  \<open>approved\<close>; in the database one location row has been added, and the rows of
  \<open>location_requests\<close> with the id of the request, and only those, have been
  rewritten, with status \<open>approved\<close>.
\<close>

theorem handleApprove_success_writes:
  assumes "fst (handleApprove e request w) = None"
  shows "let w' = snd (handleApprove e request w) in
     \<exists>user. auth_user e = Some user
     \<and> filter is_write (new_calls w w') =
         [InsertLocation
            \<lparr>ins_name = location_name request, ins_region = req_region request,
             ins_latitude = req_latitude request, ins_longitude = req_longitude request,
             ins_thingspeak_channel_id = req_thingspeak_channel_id request,
             ins_thingspeak_read_key = req_thingspeak_read_key request,
             ins_status = ''normal''\<rparr>,
          UpdateRequest (req_id request)
            \<lparr>patch_status = ''approved'', patch_reviewed_by = user,
             patch_reviewed_at = now e\<rparr>]
     \<and> length (filter is_insert (new_calls w w')) = 1
     \<and> length (filter is_update (new_calls w w')) = 1
     \<and> length (locations (store w')) = length (locations (store w)) + 1
     \<and> location_requests (store w') =
         map (\<lambda>r. if req_id r = req_id request
                  then r\<lparr>req_status := Some ''approved'', reviewed_by := Some user,
                         reviewed_at := Some (now e)\<rparr>
                  else r)
           (location_requests (store w))"
proof -
  from assms obtain user where
    u: "auth_user e = Some user" "insert_error e = None" "update_error e = None"
    by (auto simp add: handleApprove_fst split: option.splits)
  then show ?thesis
    by (simp add: review_defs is_write_def apply_patch_def)
qed

text \<open>An instance of the statement, at the concrete states above.\<close>

theorem handleApprove_success_writes_witness:
  "fst (handleApprove env_ok example_request example_world) = None
   \<and> length (filter is_insert
        (new_calls example_world (snd (handleApprove env_ok example_request example_world)))) = 1
   \<and> length (filter is_update
        (new_calls example_world (snd (handleApprove env_ok example_request example_world)))) = 1
   \<and> map req_status (location_requests
        (store (snd (handleApprove env_ok example_request example_world))))
      = [Some ''approved'']"
proof -
  have ok: "fst (handleApprove env_ok example_request example_world) = None"
    by (simp add: handleApprove_fst env_ok_def)
  from handleApprove_success_writes [OF ok] ok show ?thesis
    by (auto simp add: Let_def example_defs)
qed

text \<open>
  Claim C3. The approve action is not atomic. In every run in which a user is signed
  in, the insert succeeds and the update answers with an error, the action has
  issued two writes in sequence, first the insert of the location and then the
  update of the request, and no third (compensating) write; the inserted row is in
  \<open>locations\<close>, the table \<open>location_requests\<close> is as it was (a pending request is
  still pending), and the handler shows the error toast. The example below is such
  a run.
\<close>

theorem handleApprove_update_fails_after_insert:
  assumes "auth_user e = Some user" "insert_error e = None" "update_error e = Some err"
  shows "fst (handleApprove e request w) = Some err
     \<and> filter is_write (new_calls w (snd (handleApprove e request w))) =
         [InsertLocation
            \<lparr>ins_name = location_name request, ins_region = req_region request,
             ins_latitude = req_latitude request, ins_longitude = req_longitude request,
             ins_thingspeak_channel_id = req_thingspeak_channel_id request,
             ins_thingspeak_read_key = req_thingspeak_read_key request,
             ins_status = ''normal''\<rparr>,
          UpdateRequest (req_id request)
            \<lparr>patch_status = ''approved'', patch_reviewed_by = user,
             patch_reviewed_at = now e\<rparr>]
     \<and> locations (store (snd (handleApprove e request w))) =
         locations (store w) @
         [\<lparr>ins_name = location_name request, ins_region = req_region request,
           ins_latitude = req_latitude request, ins_longitude = req_longitude request,
           ins_thingspeak_channel_id = req_thingspeak_channel_id request,
           ins_thingspeak_read_key = req_thingspeak_read_key request,
           ins_status = ''normal''\<rparr>]
     \<and> location_requests (store (snd (handleApprove e request w))) =
         location_requests (store w)
     \<and> toasts (snd (handleApprove e request w)) =
         toasts w @ [error_toast ''Failed to approve request'']"
  using assms by (simp add: review_defs is_write_def)

text \<open>An instance of the statement, at the concrete states above.\<close>

theorem handleApprove_update_fails_after_insert_witness:
  "auth_user env_update_fails = Some ''admin''
   \<and> insert_error env_update_fails = None
   \<and> update_error env_update_fails = Some ''timeout''
   \<and> length (locations (store (snd (handleApprove env_update_fails example_request example_world)))) = 1
   \<and> map req_status (location_requests
        (store (snd (handleApprove env_update_fails example_request example_world))))
      = [Some ''pending'']"
  using handleApprove_update_fails_after_insert
     [of env_update_fails "''admin''" "''timeout''" example_request example_world]
  by (simp add: example_defs)





text \<open>
  Claim C5, as stated, at a run in which the request is approved and the query that
  refreshes the list fails: the request is approved in the database, the view still
  lists it with its buttons enabled (\<open>processingId\<close> is \<open>null\<close>), a reject of the
  same request completes without error, and the status is \<open>rejected\<close> afterwards.
  The update of either handler is filtered by \<open>eq("id", request.id)\<close> alone.
\<close>

theorem reject_after_approve_counterexample:
  "map req_status (location_requests
        (store (snd (handleApprove env_stale example_request example_world))))
      = [Some ''approved'']
   \<and> requests (snd (handleApprove env_stale example_request example_world)) = [example_request]
   \<and> processingId (snd (handleApprove env_stale example_request example_world)) = None
   \<and> fst (handleReject env_stale example_request
             (snd (handleApprove env_stale example_request example_world))) = None
   \<and> map req_status (location_requests
        (store (snd (handleReject env_stale example_request
                       (snd (handleApprove env_stale example_request example_world))))))
      = [Some ''rejected'']"
  by (simp add: review_defs example_defs apply_patch_def fetchPendingRequests_def
      remote_select_pending_def)

lemma pending_rows_status:
  "r \<in> set (pending_rows d) \<Longrightarrow> req_status r = Some ''pending''"
  by (auto simp add: pending_rows_def)

lemma truncate_status: "req_status (LocationRequest.truncate r) = req_status r"
  by (simp add: LocationRequest.defs)

text \<open>
  Claim C5, amended. A reviewer action that completes without error sets the status
  of every row with the id of the request, \<open>approved\<close> for the approve action and
  \<open>rejected\<close> for the reject action, whatever the status was before: the write is
  not guarded by the current status, and a later action on the same request changes
  the status again. What the view does is to list, after a successful query, only
  rows whose status is \<open>pending\<close>.
\<close>

theorem reviewer_write_ignores_status:
  "(fst (handleApprove e request w) = None \<longrightarrow>
      (\<forall>r \<in> set (location_requests (store (snd (handleApprove e request w)))).
         req_id r = req_id request \<longrightarrow> req_status r = Some ''approved''))
   \<and> (fst (handleReject e request w) = None \<longrightarrow>
      (\<forall>r \<in> set (location_requests (store (snd (handleReject e request w)))).
         req_id r = req_id request \<longrightarrow> req_status r = Some ''rejected''))
   \<and> (select_error e = None \<longrightarrow>
      (\<forall>r \<in> set (requests (fetchPendingRequests e w)). req_status r = Some ''pending''))"
proof (intro conjI impI)
  assume "fst (handleApprove e request w) = None"
  then obtain user where
    "auth_user e = Some user" "insert_error e = None" "update_error e = None"
    by (auto simp add: handleApprove_fst split: option.splits)
  then show "\<forall>r \<in> set (location_requests (store (snd (handleApprove e request w)))).
         req_id r = req_id request \<longrightarrow> req_status r = Some ''approved''"
    by (auto simp add: review_defs apply_patch_def)
next
  assume "fst (handleReject e request w) = None"
  then obtain user where "auth_user e = Some user" "update_error e = None"
    by (auto simp add: handleReject_fst split: option.splits)
  then show "\<forall>r \<in> set (location_requests (store (snd (handleReject e request w)))).
         req_id r = req_id request \<longrightarrow> req_status r = Some ''rejected''"
    by (auto simp add: review_defs apply_patch_def)
next
  assume "select_error e = None"
  then show "\<forall>r \<in> set (requests (fetchPendingRequests e w)). req_status r = Some ''pending''"
    by (auto simp add: fetchPendingRequests_def remote_select_pending_def log_call_def
        truncate_status dest: pending_rows_status)
qed

text \<open>An instance of the statement, at the concrete states above.\<close>

theorem reviewer_write_ignores_status_witness:
  "fst (handleReject env_ok example_request
          (snd (handleApprove env_ok example_request example_world))) = None
   \<and> map req_status (location_requests
        (store (snd (handleApprove env_ok example_request example_world))))
      = [Some ''approved'']
   \<and> map req_status (location_requests
          (store (snd (handleReject env_ok example_request
                         (snd (handleApprove env_ok example_request example_world))))))
      = [Some ''rejected'']"
proof -
  have ok: "fst (handleReject env_ok example_request
          (snd (handleApprove env_ok example_request example_world))) = None"
    by (simp add: handleReject_fst env_ok_def)
  have ids: "map req_id (location_requests
          (store (snd (handleReject env_ok example_request
                         (snd (handleApprove env_ok example_request example_world))))))
      = [req_id example_request]"
    by (simp add: review_defs example_defs apply_patch_def)
  have appr: "map req_status (location_requests
        (store (snd (handleApprove env_ok example_request example_world))))
      = [Some ''approved'']"
    by (simp add: review_defs example_defs apply_patch_def)
  from ids obtain x where
    x: "location_requests
          (store (snd (handleReject env_ok example_request
                         (snd (handleApprove env_ok example_request example_world))))) = [x]"
       "req_id x = req_id example_request"
    by auto
  with reviewer_write_ignores_status
         [of env_ok example_request "snd (handleApprove env_ok example_request example_world)"]
       ok
  have "req_status x = Some ''rejected''" by simp
  with x ok appr show ?thesis by simp
qed

text \<open>
  Claim C9. Every location row that the approve action passes to \<open>insert\<close> has the
  \<open>location_name\<close>, \<open>region\<close>, \<open>latitude\<close>, \<open>longitude\<close> and the two ThingSpeak
  credentials of the request, unchanged, and the status \<open>normal\<close>; when the action
  completes without error, this row is the one added to \<open>locations\<close>.
\<close>

theorem handleApprove_inserted_row:
  "(InsertLocation row \<in> set (new_calls w (snd (handleApprove e request w))) \<longrightarrow>
      ins_name row = location_name request
      \<and> ins_region row = req_region request
      \<and> ins_latitude row = req_latitude request
      \<and> ins_longitude row = req_longitude request
      \<and> ins_thingspeak_channel_id row = req_thingspeak_channel_id request
      \<and> ins_thingspeak_read_key row = req_thingspeak_read_key request
      \<and> ins_status row = ''normal'')
   \<and> (fst (handleApprove e request w) = None \<longrightarrow>
      locations (store (snd (handleApprove e request w))) =
        locations (store w) @
        [\<lparr>ins_name = location_name request, ins_region = req_region request,
          ins_latitude = req_latitude request, ins_longitude = req_longitude request,
          ins_thingspeak_channel_id = req_thingspeak_channel_id request,
          ins_thingspeak_read_key = req_thingspeak_read_key request,
          ins_status = ''normal''\<rparr>])"
  by (auto simp add: review_defs split: option.splits)

text \<open>An instance of the statement, at the concrete states above.\<close>

theorem handleApprove_inserted_row_witness:
  "fst (handleApprove env_ok example_request example_world) = None
   \<and> locations (store (snd (handleApprove env_ok example_request example_world))) =
       [\<lparr>ins_name = ''Depot'', ins_region = ''North'', ins_latitude = Fin 12,
         ins_longitude = Fin 77, ins_thingspeak_channel_id = ''1234'',
         ins_thingspeak_read_key = ''KEY'', ins_status = ''normal''\<rparr>]"
proof -
  have ok: "fst (handleApprove env_ok example_request example_world) = None"
    by (simp add: handleApprove_fst env_ok_def)
  from handleApprove_inserted_row [of _ example_world env_ok example_request] ok
  show ?thesis by (simp add: example_defs)
qed

text \<open>
  Claim C10. When the authentication lookup answers with no user, the approve action
  and the reject action each issue that lookup and no other remote call, so no write
  at all; the database (both tables) is unchanged, the error \<open>Not authenticated\<close>
  reaches the \<open>catch\<close> block, and the handler shows its error toast.
\<close>

theorem no_user_no_write:
  assumes "auth_user e = None"
  shows "fst (handleApprove e request w) = Some ''Not authenticated''
     \<and> new_calls w (snd (handleApprove e request w)) = [AuthGetUser]
     \<and> filter is_write (new_calls w (snd (handleApprove e request w))) = []
     \<and> store (snd (handleApprove e request w)) = store w
     \<and> toasts (snd (handleApprove e request w)) =
         toasts w @ [error_toast ''Failed to approve request'']
     \<and> fst (handleReject e request w) = Some ''Not authenticated''
     \<and> new_calls w (snd (handleReject e request w)) = [AuthGetUser]
     \<and> filter is_write (new_calls w (snd (handleReject e request w))) = []
     \<and> store (snd (handleReject e request w)) = store w
     \<and> toasts (snd (handleReject e request w)) =
         toasts w @ [error_toast ''Failed to reject request'']"
  using assms by (simp add: review_defs is_write_def)

text \<open>An instance of the statement, at the concrete states above.\<close>

theorem no_user_no_write_witness:
  "auth_user env_no_user = None
   \<and> store (snd (handleApprove env_no_user example_request example_world)) = store example_world
   \<and> store (snd (handleReject env_no_user example_request example_world)) = store example_world
   \<and> toasts (snd (handleApprove env_no_user example_request example_world)) =
       [\<lparr>title = ''Error'', description = ''Failed to approve request'',
         variant = Some ''destructive''\<rparr>]"
  using no_user_no_write [of env_no_user example_request example_world]
  by (simp add: example_defs error_toast_def)

section \<open>The location-detail view: results\<close>

lemma sent_send [simp]: "sent (send cs p) = sent p @ cs"
  by (simp add: send_def)

lemma intervals_send [simp]: "intervals (send cs p) = intervals p"
  by (simp add: send_def)

lemma clock_send [simp]: "clock (send cs p) = clock p"
  by (simp add: send_def)

lemma mount_eq:
  "mount i resp =
     \<lparr>route_id = i, location = (case resp of Inl err \<Rightarrow> None | Inr data \<Rightarrow> Some data),
      intervals = [\<lparr>handle = 0, delay = 10000, callback = FetchSensorData None, set_at = 0\<rparr>],
      effect_cleanup = Some 0, clock = 0, sent = [SelectLocation i], next_handle = Suc 0\<rparr>"
  by (simp add: mount_def run_effect_def fetchLocationData_def send_def Let_def split: sum.splits)

lemma intervals_elapse [simp]: "intervals (elapse n p) = intervals p"
  by (induction n) (simp_all add: step_ms_def Let_def)

lemma clock_elapse [simp]: "clock (elapse n p) = clock p + n"
  by (induction n) (simp_all add: step_ms_def Let_def)

lemma effect_cleanup_elapse [simp]: "effect_cleanup (elapse n p) = effect_cleanup p"
  by (induction n) (simp_all add: step_ms_def Let_def)

lemma elapse_silent:
  assumes "\<forall>t \<in> set (intervals p). call_closure (callback t) = []"
  shows "sent (elapse n p) = sent p"
  using assms
proof (induction n)
  case 0
  then show ?case by simp
next
  case (Suc n)
  have "concat (map (\<lambda>i. call_closure (callback i))
           (filter (due (Suc (clock p + n))) (intervals p))) = []"
    using Suc.prems by (induction "intervals p") auto
  with Suc show ?case by (simp add: step_ms_def Let_def)
qed

text \<open>
  The timer model at work: an interval whose callback closed over a \<open>location\<close>
  with both credentials sends one request for the latest reading each time another
  10000 ms have passed.
\<close>

lemma concat_replicate_Suc:
  "concat (replicate (Suc n) xs) = concat (replicate n xs) @ xs"
  by (induction n) simp_all

lemma interval_fires_every_period:
  assumes "intervals p = [\<lparr>handle = h, delay = 10000, callback = FetchSensorData loc,
                          set_at = clock p\<rparr>]"
  shows "sent (elapse n p) = sent p @ concat (replicate (n div 10000) (fetchSensorData loc))"
proof (induction n)
  case 0
  then show ?case by simp
next
  case (Suc n)
  have d: "due (Suc (clock p + n)) \<lparr>handle = h, delay = 10000, callback = FetchSensorData loc,
                          set_at = clock p\<rparr> = (Suc n mod 10000 = 0)"
    by (simp add: due_def)
  show ?case
  proof (cases "Suc n mod 10000 = 0")
    case True
    then have "Suc n div 10000 = Suc (n div 10000)"
      by (simp add: div_Suc)
    with True d Suc assms show ?thesis
      by (simp add: step_ms_def Let_def concat_replicate_Suc del: replicate.simps)
  next
    case False
    then have "Suc n div 10000 = n div 10000"
      by (simp add: div_Suc)
    with False d Suc assms show ?thesis
      by (simp add: step_ms_def Let_def)
  qed
qed


text \<open>
  Claim C6 (a fetch of the latest reading every 10 seconds while the view is mounted,
  none after it unmounts), on the code. Mounting sets one interval with a period of
  10000 ms, and unmounting clears it, after which nothing more is sent. But the
  callback of the interval is the \<open>fetchSensorData\<close> of the first render, whose
  \<open>location\<close> is \<open>null\<close>: each time it fires it returns at its guard. However long
  the view stays mounted, and whatever row the query answered with, the only request
  sent is the row query; for the location with both credentials, nothing has been
  fetched from the telemetry function after 60 seconds.
\<close>

theorem mount_polling_sends_no_request:
  "intervals (mount i resp) =
     [\<lparr>handle = 0, delay = 10000, callback = FetchSensorData None, set_at = 0\<rparr>]
   \<and> sent (elapse n (mount i resp)) = [SelectLocation i]
   \<and> sent (elapse 60000 (mount ''loc-1'' (Inr example_location))) = [SelectLocation ''loc-1'']
   \<and> intervals (unmount (elapse n (mount i resp))) = []
   \<and> sent (elapse m (unmount (elapse n (mount i resp)))) = [SelectLocation i]"
proof -
  have quiet: "sent (elapse k (mount j r)) = [SelectLocation j]" for k j r
    by (simp add: elapse_silent mount_eq)
  have cleared: "intervals (unmount (elapse n (mount i resp))) = []"
    by (simp add: unmount_def run_cleanup_def mount_eq)
  have "sent (elapse m (unmount (elapse n (mount i resp)))) = sent (unmount (elapse n (mount i resp)))"
    by (rule elapse_silent) (simp add: cleared)
  also have "\<dots> = sent (elapse n (mount i resp))"
    by (simp add: unmount_def run_cleanup_def mount_eq)
  finally have after: "sent (elapse m (unmount (elapse n (mount i resp)))) = [SelectLocation i]"
    by (simp add: quiet)
  have timers: "intervals (mount i resp) =
     [\<lparr>handle = 0, delay = 10000, callback = FetchSensorData None, set_at = 0\<rparr>]"
    by (simp add: mount_eq)
  from timers quiet cleared after show ?thesis by simp
qed

lemma emitted_sensor: "c \<in> set (fetchSensorData loc) \<Longrightarrow> emitted c"
  unfolding emitted_def by blast

lemma emitted_history: "c \<in> set (fetchHistoricalData loc) \<Longrightarrow> emitted c"
  unfolding emitted_def by blast

lemma emitted_select: "emitted (SelectLocation i)"
  unfolding emitted_def by blast

lemma all_emitted_fetchLocationData:
  "all_emitted p \<Longrightarrow> all_emitted (fetchLocationData i loc resp p)"
  by (auto simp add: all_emitted_def fetchLocationData_def Let_def
      emitted_select emitted_sensor emitted_history split: sum.splits)

lemma all_emitted_run_effect: "all_emitted p \<Longrightarrow> all_emitted (run_effect resp p)"
  using all_emitted_fetchLocationData [of p "route_id p" "location p" resp]
  by (simp add: all_emitted_def run_effect_def Let_def)

lemma all_emitted_run_cleanup: "all_emitted p \<Longrightarrow> all_emitted (run_cleanup p)"
  by (simp add: all_emitted_def run_cleanup_def split: option.splits)

lemma all_emitted_change_id: "all_emitted p \<Longrightarrow> all_emitted (change_id i resp p)"
proof -
  assume "all_emitted p"
  then have "all_emitted (run_cleanup p)" by (rule all_emitted_run_cleanup)
  then have "all_emitted ((run_cleanup p)\<lparr>route_id := i\<rparr>)" by (simp add: all_emitted_def)
  then show ?thesis unfolding change_id_def by (rule all_emitted_run_effect)
qed

lemma all_emitted_handleRefresh: "all_emitted p \<Longrightarrow> all_emitted (handleRefresh p)"
  by (auto simp add: all_emitted_def handleRefresh_def emitted_sensor emitted_history)

lemma emitted_closure: "c \<in> set (call_closure cl) \<Longrightarrow> emitted c"
  by (cases cl) (simp add: emitted_sensor)

lemma all_emitted_step_ms: "all_emitted p \<Longrightarrow> all_emitted (step_ms p)"
  by (auto simp add: all_emitted_def step_ms_def Let_def dest: emitted_closure)

lemma all_emitted_elapse: "all_emitted p \<Longrightarrow> all_emitted (elapse n p)"
  by (induction n) (simp_all add: all_emitted_step_ms)

lemma all_emitted_handle_event: "all_emitted p \<Longrightarrow> all_emitted (handle_event ev p)"
  by (cases ev) (simp_all add: all_emitted_elapse all_emitted_handleRefresh
      all_emitted_change_id all_emitted_run_cleanup unmount_def)

lemma all_emitted_run: "all_emitted p \<Longrightarrow> all_emitted (run evs p)"
  by (induction evs arbitrary: p) (simp_all add: all_emitted_handle_event)

lemma all_emitted_mount: "all_emitted (mount i resp)"
  by (simp add: all_emitted_def mount_eq emitted_select)

lemma run_emitted: "c \<in> set (sent (run evs (mount i resp))) \<Longrightarrow> emitted c"
  using all_emitted_run [OF all_emitted_mount, of evs i resp] by (simp add: all_emitted_def)

lemma fetchHistoricalData_cases:
  "fetchHistoricalData loc = [] \<or>
   (\<exists>l ck rk. loc = Some l \<and> thingspeak_channel_id l = Some ck \<and> ck \<noteq> []
      \<and> thingspeak_read_key l = Some rk \<and> rk \<noteq> []
      \<and> fetchHistoricalData loc =
          [InvokeFunction ''thingspeak-service''
             (JObject [(''action'', JString ''history''),
                       (''location'', JObject [(''thingspeak_channel_id'', JString ck),
                                               (''thingspeak_read_key'', JString rk)]),
                       (''results'', JNumber (Fin 50))])])"
  by (cases loc) (auto simp add: truthy_def json_of_nullable_def split: option.splits)

lemma fetchSensorData_cases:
  "fetchSensorData loc = [] \<or>
   (\<exists>l ck rk. loc = Some l \<and> thingspeak_channel_id l = Some ck \<and> ck \<noteq> []
      \<and> thingspeak_read_key l = Some rk \<and> rk \<noteq> []
      \<and> fetchSensorData loc =
          [InvokeFunction ''thingspeak-service''
             (JObject [(''action'', JString ''latest''),
                       (''location'', JObject [(''thingspeak_channel_id'', JString ck),
                                               (''thingspeak_read_key'', JString rk)])])])"
  by (cases loc) (auto simp add: truthy_def json_of_nullable_def split: option.splits)

lemma sensor_not_history: "c \<in> set (fetchSensorData loc) \<Longrightarrow> \<not> is_history c"
  using fetchSensorData_cases [of loc] by (auto simp add: is_history_def)


lemma run_refresh_example:
  "sent (run [ClickRefresh] (mount ''loc-1'' (Inr example_location))) =
     [SelectLocation ''loc-1'',
      InvokeFunction ''thingspeak-service''
        (JObject [(''action'', JString ''latest''),
                  (''location'', JObject [(''thingspeak_channel_id'', JString ''1234''),
                                          (''thingspeak_read_key'', JString ''KEY'')])]),
      InvokeFunction ''thingspeak-service''
        (JObject [(''action'', JString ''history''),
                  (''location'', JObject [(''thingspeak_channel_id'', JString ''1234''),
                                          (''thingspeak_read_key'', JString ''KEY'')]),
                  (''results'', JNumber (Fin 50))])]"
  by (simp add: mount_eq handleRefresh_def example_location_def truthy_def json_of_nullable_def)

lemma shape_latest:
  "request_shape ''thingspeak_channel_id'' ''thingspeak_read_key''
     (JObject [(''action'', JString ''latest''),
               (''location'', JObject [(''thingspeak_channel_id'', JString ck),
                                       (''thingspeak_read_key'', JString rk)])])"
  by (simp add: request_shape_def)

lemma shape_history:
  "request_shape ''thingspeak_channel_id'' ''thingspeak_read_key''
     (JObject [(''action'', JString ''history''),
               (''location'', JObject [(''thingspeak_channel_id'', JString ck),
                                       (''thingspeak_read_key'', JString rk)]),
               (''results'', JNumber (Fin 50))])"
  by (simp add: request_shape_def)



text \<open>
  Claim C7. The historical-data fetch sends a request only when the \<open>location\<close> it
  sees has both credentials, each a non-empty string, and the request is then the
  \<open>history\<close> action for these credentials with \<open>results\<close> equal to 50. Every
  \<open>history\<close> request that a mounted view sends, in any run of events, comes out of
  this function. Inside \<open>fetchLocationData\<close> it is sent, moreover, only when the row
  just fetched has both credentials.
\<close>

theorem history_request_last_fifty:
  "(c \<in> set (fetchHistoricalData loc) \<longrightarrow>
      (\<exists>l ck rk. loc = Some l
         \<and> thingspeak_channel_id l = Some ck \<and> ck \<noteq> []
         \<and> thingspeak_read_key l = Some rk \<and> rk \<noteq> []
         \<and> c = InvokeFunction ''thingspeak-service''
                 (JObject [(''action'', JString ''history''),
                           (''location'', JObject [(''thingspeak_channel_id'', JString ck),
                                                   (''thingspeak_read_key'', JString rk)]),
                           (''results'', JNumber (Fin 50))])))
   \<and> (c \<in> set (sent (run evs (mount i resp))) \<and> is_history c \<longrightarrow>
        (\<exists>loc'. c \<in> set (fetchHistoricalData loc')))
   \<and> (c \<in> set (drop (length (sent p)) (sent (fetchLocationData j loc resp' p)))
        \<and> is_history c \<longrightarrow>
        c \<in> set (fetchHistoricalData loc)
        \<and> (\<exists>data. resp' = Inr data \<and> truthy (thingspeak_channel_id data)
               \<and> truthy (thingspeak_read_key data)))"
proof (intro conjI impI)
  assume "c \<in> set (fetchHistoricalData loc)"
  then show "\<exists>l ck rk. loc = Some l
         \<and> thingspeak_channel_id l = Some ck \<and> ck \<noteq> []
         \<and> thingspeak_read_key l = Some rk \<and> rk \<noteq> []
         \<and> c = InvokeFunction ''thingspeak-service''
                 (JObject [(''action'', JString ''history''),
                           (''location'', JObject [(''thingspeak_channel_id'', JString ck),
                                                   (''thingspeak_read_key'', JString rk)]),
                           (''results'', JNumber (Fin 50))])"
    using fetchHistoricalData_cases [of loc] by auto
next
  assume a: "c \<in> set (sent (run evs (mount i resp))) \<and> is_history c"
  then have "emitted c" using run_emitted by blast
  with a show "\<exists>loc'. c \<in> set (fetchHistoricalData loc')"
    unfolding emitted_def using sensor_not_history by (auto simp add: is_history_def)
next
  assume a: "c \<in> set (drop (length (sent p)) (sent (fetchLocationData j loc resp' p)))
        \<and> is_history c"
  then show "c \<in> set (fetchHistoricalData loc)"
    using sensor_not_history [of c loc]
    by (auto simp add: fetchLocationData_def Let_def is_history_def split: sum.splits if_splits)
  from a show "\<exists>data. resp' = Inr data \<and> truthy (thingspeak_channel_id data)
               \<and> truthy (thingspeak_read_key data)"
    using sensor_not_history [of c loc]
    by (auto simp add: fetchLocationData_def Let_def is_history_def split: sum.splits if_splits)
qed

text \<open>An instance of the statement, at the concrete states above.\<close>

theorem history_request_last_fifty_witness:
  "InvokeFunction ''thingspeak-service''
        (JObject [(''action'', JString ''history''),
                  (''location'', JObject [(''thingspeak_channel_id'', JString ''1234''),
                                          (''thingspeak_read_key'', JString ''KEY'')]),
                  (''results'', JNumber (Fin 50))])
     \<in> set (fetchHistoricalData (Some example_location))
   \<and> InvokeFunction ''thingspeak-service''
        (JObject [(''action'', JString ''history''),
                  (''location'', JObject [(''thingspeak_channel_id'', JString ''1234''),
                                          (''thingspeak_read_key'', JString ''KEY'')]),
                  (''results'', JNumber (Fin 50))])
     \<in> set (sent (run [ClickRefresh] (mount ''loc-1'' (Inr example_location))))
   \<and> is_history (InvokeFunction ''thingspeak-service''
        (JObject [(''action'', JString ''history''),
                  (''location'', JObject [(''thingspeak_channel_id'', JString ''1234''),
                                          (''thingspeak_read_key'', JString ''KEY'')]),
                  (''results'', JNumber (Fin 50))]))
   \<and> thingspeak_channel_id example_location = Some ''1234''
   \<and> thingspeak_read_key example_location = Some ''KEY''"
proof -
  have mem: "InvokeFunction ''thingspeak-service''
        (JObject [(''action'', JString ''history''),
                  (''location'', JObject [(''thingspeak_channel_id'', JString ''1234''),
                                          (''thingspeak_read_key'', JString ''KEY'')]),
                  (''results'', JNumber (Fin 50))])
     \<in> set (sent (run [ClickRefresh] (mount ''loc-1'' (Inr example_location))))"
    by (simp only: run_refresh_example) simp
  have hist: "is_history (InvokeFunction ''thingspeak-service''
        (JObject [(''action'', JString ''history''),
                  (''location'', JObject [(''thingspeak_channel_id'', JString ''1234''),
                                          (''thingspeak_read_key'', JString ''KEY'')]),
                  (''results'', JNumber (Fin 50))]))"
    by (simp add: is_history_def)
  have src: "InvokeFunction ''thingspeak-service''
        (JObject [(''action'', JString ''history''),
                  (''location'', JObject [(''thingspeak_channel_id'', JString ''1234''),
                                          (''thingspeak_read_key'', JString ''KEY'')]),
                  (''results'', JNumber (Fin 50))])
     \<in> set (fetchHistoricalData (Some example_location))"
    by (simp add: example_location_def truthy_def json_of_nullable_def)
  have creds: "thingspeak_channel_id example_location = Some ''1234''
     \<and> thingspeak_read_key example_location = Some ''KEY''"
    by (simp add: example_location_def)
  from history_request_last_fifty
    [of "InvokeFunction ''thingspeak-service''
        (JObject [(''action'', JString ''history''),
                  (''location'', JObject [(''thingspeak_channel_id'', JString ''1234''),
                                          (''thingspeak_read_key'', JString ''KEY'')]),
                  (''results'', JNumber (Fin 50))])"
        "Some example_location" "[ClickRefresh]" "''loc-1''" "Inr example_location"]
    mem hist src creds
  show ?thesis by blast
qed


text \<open>
  Claim C8, as stated, at the request for the latest reading of a location with
  both credentials: the fields of its \<open>location\<close> object are named
  \<open>thingspeak_channel_id\<close> and \<open>thingspeak_read_key\<close>, not \<open>channel_id\<close> and
  \<open>read_key\<close>.
\<close>

theorem latest_request_field_names_counterexample:
  "fetchSensorData (Some example_location) =
     [InvokeFunction ''thingspeak-service''
        (JObject [(''action'', JString ''latest''),
                  (''location'', JObject [(''thingspeak_channel_id'', JString ''1234''),
                                          (''thingspeak_read_key'', JString ''KEY'')])])]
   \<and> \<not> request_shape ''channel_id'' ''read_key''
        (JObject [(''action'', JString ''latest''),
                  (''location'', JObject [(''thingspeak_channel_id'', JString ''1234''),
                                          (''thingspeak_read_key'', JString ''KEY'')])])"
proof -
  have "\<not> request_shape ''channel_id'' ''read_key''
        (JObject [(''action'', JString ''latest''),
                  (''location'', JObject [(''thingspeak_channel_id'', JString ''1234''),
                                          (''thingspeak_read_key'', JString ''KEY'')])])"
    by (simp add: request_shape_def doubleton_eq_iff)
  moreover have "fetchSensorData (Some example_location) =
     [InvokeFunction ''thingspeak-service''
        (JObject [(''action'', JString ''latest''),
                  (''location'', JObject [(''thingspeak_channel_id'', JString ''1234''),
                                          (''thingspeak_read_key'', JString ''KEY'')])])]"
    by (simp add: example_location_def truthy_def json_of_nullable_def)
  ultimately show ?thesis by blast
qed

text \<open>
  Claim C8, amended. Every request that a mounted view sends to a remote function, in
  any run of events, goes to \<open>thingspeak-service\<close> and has the shape
  \<open>{action: "latest"|"history", location: {thingspeak_channel_id, thingspeak_read_key},
  results?}\<close>: the \<open>location\<close> object has exactly these two fields, and \<open>results\<close>
  is there only for the \<open>history\<close> action.
\<close>

theorem sent_request_shape:
  "c \<in> set (sent (run evs (mount i resp))) \<and> invoke_body c = Some body \<longrightarrow>
     c = InvokeFunction ''thingspeak-service'' body
     \<and> request_shape ''thingspeak_channel_id'' ''thingspeak_read_key'' body"
proof
  assume a: "c \<in> set (sent (run evs (mount i resp))) \<and> invoke_body c = Some body"
  then have "emitted c" using run_emitted by blast
  then consider (sel) j where "c = SelectLocation j"
    | (sens) loc where "c \<in> set (fetchSensorData loc)"
    | (hist) loc where "c \<in> set (fetchHistoricalData loc)"
    unfolding emitted_def by blast
  then show "c = InvokeFunction ''thingspeak-service'' body
     \<and> request_shape ''thingspeak_channel_id'' ''thingspeak_read_key'' body"
  proof cases
    case sel
    with a show ?thesis by simp
  next
    case sens
    with fetchSensorData_cases [of loc] obtain ck rk where
      "c = InvokeFunction ''thingspeak-service''
             (JObject [(''action'', JString ''latest''),
                       (''location'', JObject [(''thingspeak_channel_id'', JString ck),
                                               (''thingspeak_read_key'', JString rk)])])"
      by auto
    with a shape_latest [of ck rk] show ?thesis by simp
  next
    case hist
    with fetchHistoricalData_cases [of loc] obtain ck rk where
      "c = InvokeFunction ''thingspeak-service''
             (JObject [(''action'', JString ''history''),
                       (''location'', JObject [(''thingspeak_channel_id'', JString ck),
                                               (''thingspeak_read_key'', JString rk)]),
                       (''results'', JNumber (Fin 50))])"
      by auto
    with a shape_history [of ck rk] show ?thesis by simp
  qed
qed

text \<open>An instance of the statement, at the concrete states above.\<close>

theorem sent_request_shape_witness:
  "InvokeFunction ''thingspeak-service''
        (JObject [(''action'', JString ''latest''),
                  (''location'', JObject [(''thingspeak_channel_id'', JString ''1234''),
                                          (''thingspeak_read_key'', JString ''KEY'')])])
     \<in> set (sent (run [ClickRefresh] (mount ''loc-1'' (Inr example_location))))
   \<and> request_shape ''thingspeak_channel_id'' ''thingspeak_read_key''
        (JObject [(''action'', JString ''latest''),
                  (''location'', JObject [(''thingspeak_channel_id'', JString ''1234''),
                                          (''thingspeak_read_key'', JString ''KEY'')])])"
proof -
  have mem: "InvokeFunction ''thingspeak-service''
        (JObject [(''action'', JString ''latest''),
                  (''location'', JObject [(''thingspeak_channel_id'', JString ''1234''),
                                          (''thingspeak_read_key'', JString ''KEY'')])])
     \<in> set (sent (run [ClickRefresh] (mount ''loc-1'' (Inr example_location))))"
    by (simp only: run_refresh_example) simp
  have body: "invoke_body (InvokeFunction ''thingspeak-service''
        (JObject [(''action'', JString ''latest''),
                  (''location'', JObject [(''thingspeak_channel_id'', JString ''1234''),
                                          (''thingspeak_read_key'', JString ''KEY'')])]))
     = Some (JObject [(''action'', JString ''latest''),
                  (''location'', JObject [(''thingspeak_channel_id'', JString ''1234''),
                                          (''thingspeak_read_key'', JString ''KEY'')])])"
    by simp
  from sent_request_shape
    [of "InvokeFunction ''thingspeak-service''
        (JObject [(''action'', JString ''latest''),
                  (''location'', JObject [(''thingspeak_channel_id'', JString ''1234''),
                                          (''thingspeak_read_key'', JString ''KEY'')])])"
        "[ClickRefresh]" "''loc-1''" "Inr example_location"
        "JObject [(''action'', JString ''latest''),
                  (''location'', JObject [(''thingspeak_channel_id'', JString ''1234''),
                                          (''thingspeak_read_key'', JString ''KEY'')])]"]
    mem body
  show ?thesis by blast
qed

end
